theory Spec2Isabelle
  imports Main "HOL-Library.Word" "HOL-Library.AList"
begin

section \<open>JavaScript values\<close>

text \<open>
  Both nodes (\<^verbatim>\<open>ApsDataManagement\<close> in \<^verbatim>\<open>src/unnamed/part_000\<close> and
  \<^verbatim>\<open>ApsModelDerivative\<close> in \<^verbatim>\<open>src/nodes/APS/ApsModelDerivative.node.ts\<close>) work on
  untyped JavaScript values (\<^verbatim>\<open>any\<close>): parsed JSON, strings and Node \<^verbatim>\<open>Buffer\<close>s.

  A JavaScript string is a sequence of UTF-16 code units. String literals of the source
  are ASCII and are written \<open>ascii ''...''\<close>.
\<close>

type_synonym jsstring = "16 word list"

definition ascii :: "string \<Rightarrow> jsstring" where
  "ascii s = map (\<lambda>c. of_nat (of_char c)) s"

text \<open>
  An object is the list of its own enumerable properties. Numbers are never inspected by
  the code (no arithmetic, no truthiness test that is not guarded by a \<^verbatim>\<open>typeof\<close>
  test), so their payload is an integer. The order in which JavaScript enumerates
  integer-like keys is not tracked: the list keeps insertion order.
\<close>

datatype jsval =
    JUndefined
  | JNull
  | JBool bool
  | JNum int
  | JStr jsstring
  | JArr "jsval list"
  | JObj "(jsstring \<times> jsval) list"
  | JBuf "8 word list"

text \<open>Decimal rendering of an array index, the property key of an array element.\<close>

fun dec :: "nat \<Rightarrow> string" where
  "dec n = (if n < 10 then [char_of (48 + n)] else dec (n div 10) @ [char_of (48 + n mod 10)])"

definition index_keys :: "nat \<Rightarrow> jsstring list" where
  "index_keys n = map (\<lambda>k. ascii (dec k)) [0..<n]"

text \<open>
  The own enumerable properties of a value, which is what object spread \<^verbatim>\<open>{...v}\<close>
  copies and what a property read finds for the names the source reads
  (\<^verbatim>\<open>id\<close>, \<^verbatim>\<open>type\<close>, \<^verbatim>\<open>links\<close>, \<^verbatim>\<open>self\<close>, \<^verbatim>\<open>href\<close>, \<^verbatim>\<open>attributes\<close>, \<^verbatim>\<open>data\<close>:
  none of them is an inherited or non-enumerable property of a string, array or Buffer).
\<close>

fun own_props :: "jsval \<Rightarrow> (jsstring \<times> jsval) list" where
  "own_props (JObj kvs) = kvs"
| "own_props (JArr xs) = zip (index_keys (length xs)) xs"
| "own_props (JBuf bs) = zip (index_keys (length bs)) (map (\<lambda>b. JNum (uint b)) bs)"
| "own_props (JStr s) = zip (index_keys (length s)) (map (\<lambda>c. JStr [c]) s)"
| "own_props _ = []"

text \<open>
  \<^verbatim>\<open>v?.k\<close>: \<^verbatim>\<open>undefined\<close> when \<open>v\<close> is \<^verbatim>\<open>null\<close> or \<^verbatim>\<open>undefined\<close> and when \<open>v\<close> has no
  property \<open>k\<close>. A later binding of a repeated key replaces an earlier one, as in an
  object literal and in \<^verbatim>\<open>JSON.parse\<close>.
\<close>

definition has_own :: "jsval \<Rightarrow> jsstring \<Rightarrow> bool" where
  "has_own v k = (map_of (rev (own_props v)) k \<noteq> None)"

definition get_prop :: "jsval \<Rightarrow> jsstring \<Rightarrow> jsval" where
  "get_prop v k = (case map_of (rev (own_props v)) k of Some x \<Rightarrow> x | None \<Rightarrow> JUndefined)"

text \<open>\<^verbatim>\<open>a ?? b\<close>\<close>

definition coalesce :: "jsval \<Rightarrow> jsval \<Rightarrow> jsval" where
  "coalesce a b = (if a = JUndefined \<or> a = JNull then b else a)"

text \<open>Truthiness (\<^verbatim>\<open>ToBoolean\<close>) and \<^verbatim>\<open>typeof v === 'object'\<close>.\<close>

fun truthy :: "jsval \<Rightarrow> bool" where
  "truthy JUndefined = False"
| "truthy JNull = False"
| "truthy (JBool b) = b"
| "truthy (JNum n) = (n \<noteq> 0)"
| "truthy (JStr s) = (s \<noteq> [])"
| "truthy (JArr xs) = True"
| "truthy (JObj kvs) = True"
| "truthy (JBuf bs) = True"

fun typeof_object :: "jsval \<Rightarrow> bool" where
  "typeof_object JNull = True"
| "typeof_object (JArr xs) = True"
| "typeof_object (JObj kvs) = True"
| "typeof_object (JBuf bs) = True"
| "typeof_object _ = False"

text \<open>
  The object literal \<^verbatim>\<open>{ k1: v1, ..., ...attributes }\<close>: the properties of the spread
  value are set one by one, in order, on the object built so far. Setting a key that is
  already there replaces its value in place; a new key goes to the end.
\<close>

definition spread :: "(jsstring \<times> jsval) list \<Rightarrow> jsval \<Rightarrow> (jsstring \<times> jsval) list" where
  "spread base v = fold (\<lambda>(k, x). AList.update k x) (own_props v) base"

section \<open>Entity flattening (\<^verbatim>\<open>simplifyEntity\<close>, part\_000 lines 337--347)\<close>

text \<open>
  \<^verbatim>\<open>
  const simplifyEntity = (entity: any) => {
    const href = entity?.links?.self?.href ?? entity?.links?.href ?? undefined;
    const attributes =
      entity?.attributes && typeof entity.attributes === 'object' ? entity.attributes : {};
    return { id: entity?.id, type: entity?.type, href, ...attributes };
  };
  \<close>
\<close>

definition entity_href :: "jsval \<Rightarrow> jsval" where
  "entity_href entity =
     coalesce
       (coalesce (get_prop (get_prop (get_prop entity (ascii ''links'')) (ascii ''self'')) (ascii ''href''))
                 (get_prop (get_prop entity (ascii ''links'')) (ascii ''href'')))
       JUndefined"

definition entity_attributes :: "jsval \<Rightarrow> jsval" where
  "entity_attributes entity =
     (if truthy (get_prop entity (ascii ''attributes'')) \<and>
         typeof_object (get_prop entity (ascii ''attributes''))
      then get_prop entity (ascii ''attributes'')
      else JObj [])"

definition simplifyEntity :: "jsval \<Rightarrow> jsval" where
  "simplifyEntity entity =
     JObj (spread [(ascii ''id'', get_prop entity (ascii ''id'')),
                   (ascii ''type'', get_prop entity (ascii ''type'')),
                   (ascii ''href'', entity_href entity)]
                  (entity_attributes entity))"

section \<open>Output items\<close>

text \<open>
  \<^verbatim>\<open>INodeExecutionData\<close>: the source writes the pairing as \<^verbatim>\<open>pairedItem: { item: i }\<close> on
  the normal paths and as \<^verbatim>\<open>pairedItem: i\<close> on the error path. The binary attachment is
  what the host's \<^verbatim>\<open>prepareBinaryData(buffer, fileName, mimeType)\<close> is given, stored under
  a property name of the \<^verbatim>\<open>binary\<close> object.
\<close>

datatype paired = PairedItem nat | PairedIndex nat

fun paired_index :: "paired \<Rightarrow> nat" where
  "paired_index (PairedItem i) = i"
| "paired_index (PairedIndex i) = i"

record binary_data =
  content :: "8 word list"
  fileName :: jsstring
  mimeType :: jsstring

record output_item =
  json :: jsval
  pairedItem :: paired
  binary :: "(jsstring \<times> binary_data) list option"

definition item :: "jsval \<Rightarrow> nat \<Rightarrow> output_item" where
  "item j i = \<lparr>json = j, pairedItem = PairedItem i, binary = None\<rparr>"

section \<open>Response normalizer of the Data Management node (part\_000 lines 499--531)\<close>

text \<open>
  \<^verbatim>\<open>JSON.parse\<close> belongs to the runtime and is a parameter: \<open>None\<close> is a thrown
  \<^verbatim>\<open>SyntaxError\<close>, which the source catches, keeping the string.
\<close>

definition parse_body :: "(jsstring \<Rightarrow> jsval option) \<Rightarrow> jsval \<Rightarrow> jsval" where
  "parse_body parse response =
     (case response of
        JStr s \<Rightarrow> (case parse s of Some v \<Rightarrow> v | None \<Rightarrow> JStr s)
      | _ \<Rightarrow> response)"

definition normalize_response :: "bool \<Rightarrow> bool \<Rightarrow> nat \<Rightarrow> jsval \<Rightarrow> output_item list" where
  "normalize_response simplify splitItems i body =
     (case get_prop body (ascii ''data'') of
        JArr elements \<Rightarrow>
          if splitItems
          then map (\<lambda>element. item (if simplify then simplifyEntity element else element) i) elements
          else if simplify
               then [item (JObj [(ascii ''data'', JArr (map simplifyEntity elements))]) i]
               else [item body i]
      | target \<Rightarrow>
          if truthy body \<and> typeof_object body \<and> truthy target \<and> typeof_object target
          then [item (if simplify then simplifyEntity target else target) i]
          else [item body i])"

section \<open>Errors and the host\<close>

text \<open>
  Everything thrown inside the \<^verbatim>\<open>try\<close> block of an item is an \<^verbatim>\<open>Error\<close> with a message:
  the host's \<^verbatim>\<open>getNodeParameter\<close> fails with a configuration error, its
  \<^verbatim>\<open>requestWithAuthentication\<close> with a transport error, and \<^verbatim>\<open>encodeURIComponent\<close>
  throws a \<^verbatim>\<open>URIError\<close> on a lone surrogate.
\<close>

datatype error = ConfigurationError jsstring | TransportError jsstring | URIError jsstring

fun message :: "error \<Rightarrow> jsstring" where
  "message (ConfigurationError m) = m"
| "message (TransportError m) = m"
| "message (URIError m) = m"

definition bindE :: "'e + 'a \<Rightarrow> ('a \<Rightarrow> 'e + 'b) \<Rightarrow> 'e + 'b" where
  "bindE m f = (case m of Inl e \<Rightarrow> Inl e | Inr a \<Rightarrow> f a)"

text \<open>
  The request options handed to the transport. A field the source leaves out of the
  object literal is \<open>None\<close>; \<^verbatim>\<open>encoding: null\<close> is \<open>Some JNull\<close>.
\<close>

record request =
  http_method :: jsstring
  url :: jsstring
  req_json :: bool
  headers :: "(jsstring \<times> jsstring) list option"
  qs :: "(jsstring \<times> jsval) list option"
  body :: "jsval option"
  encoding :: "jsval option"

text \<open>
  The host (\<^verbatim>\<open>IExecuteFunctions\<close>) and the runtime primitives the nodes call.
  \<^verbatim>\<open>getNodeParameter(name, i, fallback?)\<close> is read at the type the node description
  declares for the parameter (the \<^verbatim>\<open>as string\<close>, \<^verbatim>\<open>as boolean\<close>, ... casts of the
  source); the third argument is the fallback value when the source passes one.
  \<^verbatim>\<open>requestWithAuthentication\<close> is indexed by the item being processed, so that two equal
  requests may be answered differently.
\<close>

record 'op host =
  getOperation :: "nat \<Rightarrow> error + 'op"
  getString :: "jsstring \<Rightarrow> nat \<Rightarrow> jsstring option \<Rightarrow> error + jsstring"
  getBoolean :: "jsstring \<Rightarrow> nat \<Rightarrow> bool option \<Rightarrow> error + bool"
  getNumber :: "jsstring \<Rightarrow> nat \<Rightarrow> int option \<Rightarrow> error + int"
  getStrings :: "jsstring \<Rightarrow> nat \<Rightarrow> jsstring list option \<Rightarrow> error + jsstring list"
  requestWithAuthentication :: "nat \<Rightarrow> request \<Rightarrow> error + jsval"
  continueOnFail :: bool
  parseJSON :: "jsstring \<Rightarrow> jsval option"
  fromBase64 :: "jsstring \<Rightarrow> 8 word list"
  toBase64 :: "8 word list \<Rightarrow> jsstring"

section \<open>\<^verbatim>\<open>encodeURIComponent\<close>\<close>

text \<open>
  ECMAScript's \<^verbatim>\<open>Encode\<close> with the unescaped set of \<^verbatim>\<open>encodeURIComponent\<close>: letters,
  digits and \<^verbatim>\<open>- _ . ! ~ * ' ( )\<close> are copied; any other code point is written as the
  octets of its UTF-8 encoding, each as \<^verbatim>\<open>%\<close> and two upper-case hexadecimal digits; a
  surrogate code unit that is not part of a pair throws.
\<close>

definition unescaped :: "16 word \<Rightarrow> bool" where
  "unescaped c =
     ((0x41 \<le> unat c \<and> unat c \<le> 0x5A) \<or> (0x61 \<le> unat c \<and> unat c \<le> 0x7A) \<or>
      (0x30 \<le> unat c \<and> unat c \<le> 0x39) \<or> c \<in> set (ascii ''-_.!~*()'') \<or> c = 0x27)"

definition is_lead :: "16 word \<Rightarrow> bool" where
  "is_lead c = (0xD800 \<le> unat c \<and> unat c \<le> 0xDBFF)"

definition is_trail :: "16 word \<Rightarrow> bool" where
  "is_trail c = (0xDC00 \<le> unat c \<and> unat c \<le> 0xDFFF)"

definition pair_code_point :: "16 word \<Rightarrow> 16 word \<Rightarrow> nat" where
  "pair_code_point lead trail = (unat lead - 0xD800) * 0x400 + (unat trail - 0xDC00) + 0x10000"

definition utf8 :: "nat \<Rightarrow> nat list" where
  "utf8 cp =
     (if cp < 0x80 then [cp]
      else if cp < 0x800 then [0xC0 + cp div 64, 0x80 + cp mod 64]
      else if cp < 0x10000 then [0xE0 + cp div 4096, 0x80 + cp div 64 mod 64, 0x80 + cp mod 64]
      else [0xF0 + cp div 262144, 0x80 + cp div 4096 mod 64, 0x80 + cp div 64 mod 64,
            0x80 + cp mod 64])"

definition hex_digit :: "nat \<Rightarrow> 16 word" where
  "hex_digit n = ascii ''0123456789ABCDEF'' ! (n mod 16)"

text \<open>
  An octet \<open>b\<close> is below 256, so its two digits are \<open>b div 16\<close> and \<open>b mod 16\<close>; the
  reduction modulo 16 is part of \<open>hex_digit\<close>.
\<close>

definition percent :: "nat list \<Rightarrow> jsstring" where
  "percent octets = concat (map (\<lambda>b. [0x25, hex_digit (b div 16), hex_digit b]) octets)"

fun encode :: "jsstring \<Rightarrow> jsstring option" where
  "encode [] = Some []"
| "encode (c # cs) =
     (if unescaped c then map_option (\<lambda>r. c # r) (encode cs)
      else if is_lead c then
        (case cs of
           [] \<Rightarrow> None
         | d # ds \<Rightarrow>
             if is_trail d
             then map_option (\<lambda>r. percent (utf8 (pair_code_point c d)) @ r) (encode ds)
             else None)
      else if is_trail c then None
      else map_option (\<lambda>r. percent (utf8 (unat c)) @ r) (encode cs))"

definition encodeURIComponent :: "jsstring \<Rightarrow> error + jsstring" where
  "encodeURIComponent s =
     (case encode s of None \<Rightarrow> Inl (URIError (ascii ''URI malformed'')) | Some r \<Rightarrow> Inr r)"

section \<open>Operation resolver of the Data Management node (part\_000 lines 351--489)\<close>

datatype dm_operation =
    getHubs | getProjects | getTopFolders | getItems | getItemVersions
  | listBuckets | createBucket | getBucketDetails | deleteBucket
  | uploadObject | downloadObject | getObjectDetails | deleteObject | copyObject

definition BASE_URL :: jsstring where
  "BASE_URL = ascii ''https://developer.api.autodesk.com''"

text \<open>The \<^verbatim>\<open>switch\<close> of lines 354--381: the URL of the five browsing operations, else \<^verbatim>\<open>''\<close>.\<close>

fun dm_switch_url :: "dm_operation host \<Rightarrow> nat \<Rightarrow> dm_operation \<Rightarrow> error + jsstring" where
  "dm_switch_url h i getHubs = Inr (BASE_URL @ ascii ''/project/v1/hubs'')"
| "dm_switch_url h i getProjects =
     bindE (getString h (ascii ''hubId'') i None) (\<lambda>hubId.
     bindE (encodeURIComponent hubId) (\<lambda>e1.
     Inr (BASE_URL @ ascii ''/project/v1/hubs/'' @ e1 @ ascii ''/projects'')))"
| "dm_switch_url h i getTopFolders =
     bindE (getString h (ascii ''projectId'') i None) (\<lambda>projectId.
     bindE (encodeURIComponent projectId) (\<lambda>e1.
     Inr (BASE_URL @ ascii ''/project/v1/projects/'' @ e1 @ ascii ''/topFolders'')))"
| "dm_switch_url h i getItems =
     bindE (getString h (ascii ''projectId'') i None) (\<lambda>projectId.
     bindE (getString h (ascii ''folderId'') i None) (\<lambda>folderId.
     bindE (encodeURIComponent projectId) (\<lambda>e1.
     bindE (encodeURIComponent folderId) (\<lambda>e2.
     Inr (BASE_URL @ ascii ''/data/v1/projects/'' @ e1 @ ascii ''/folders/'' @ e2
            @ ascii ''/contents'')))))"
| "dm_switch_url h i getItemVersions =
     bindE (getString h (ascii ''projectId'') i None) (\<lambda>projectId.
     bindE (getString h (ascii ''itemId'') i None) (\<lambda>itemId.
     bindE (encodeURIComponent projectId) (\<lambda>e1.
     bindE (encodeURIComponent itemId) (\<lambda>e2.
     Inr (BASE_URL @ ascii ''/data/v1/projects/'' @ e1 @ ascii ''/items/'' @ e2
            @ ascii ''/versions'')))))"
| "dm_switch_url h i _ = Inr []"

definition ACCEPT :: "(jsstring \<times> jsstring) list" where
  "ACCEPT = [(ascii ''Accept'', ascii ''application/vnd.api+json, application/json;q=0.9'')]"

text \<open>The bucket URL and the object URL, which several branches of lines 394--489 build.\<close>

definition bucket_url :: "jsstring \<Rightarrow> jsstring \<Rightarrow> error + jsstring" where
  "bucket_url bucketKey suffix =
     bindE (encodeURIComponent bucketKey) (\<lambda>e1.
     Inr (BASE_URL @ ascii ''/oss/v2/buckets/'' @ e1 @ suffix))"

definition object_url :: "jsstring \<Rightarrow> jsstring \<Rightarrow> jsstring \<Rightarrow> error + jsstring" where
  "object_url bucketKey objectName suffix =
     bindE (encodeURIComponent bucketKey) (\<lambda>e1.
     bindE (encodeURIComponent objectName) (\<lambda>e2.
     Inr (BASE_URL @ ascii ''/oss/v2/buckets/'' @ e1 @ ascii ''/objects/'' @ e2 @ suffix)))"

text \<open>
  Lines 383--489: the default request options, then the \<^verbatim>\<open>if\<close> chain of the object
  storage operations, which replaces them or overrides some of their fields.
\<close>

fun dm_oss :: "dm_operation host \<Rightarrow> nat \<Rightarrow> dm_operation \<Rightarrow> request \<Rightarrow> error + request" where
  "dm_oss h i listBuckets requestOptions =
     bindE (getString h (ascii ''region'') i (Some (ascii ''US''))) (\<lambda>region.
     bindE (getNumber h (ascii ''limit'') i (Some 10)) (\<lambda>limit.
     Inr (requestOptions\<lparr>
            url := BASE_URL @ ascii ''/oss/v2/buckets'',
            headers := Some (ACCEPT @ [(ascii ''region'', region)]),
            qs := Some [(ascii ''limit'', JNum limit)]\<rparr>)))"
| "dm_oss h i createBucket requestOptions =
     bindE (getString h (ascii ''newBucketKey'') i None) (\<lambda>newBucketKey.
     bindE (getString h (ascii ''policyKey'') i None) (\<lambda>policyKey.
     bindE (getString h (ascii ''region'') i (Some (ascii ''US''))) (\<lambda>region.
     Inr \<lparr>http_method = ascii ''POST'',
          url = BASE_URL @ ascii ''/oss/v2/buckets'',
          req_json = True,
          headers = Some [(ascii ''Content-Type'', ascii ''application/json''),
                          (ascii ''region'', region)],
          qs = None,
          body = Some (JObj [(ascii ''bucketKey'', JStr newBucketKey),
                             (ascii ''policyKey'', JStr policyKey)]),
          encoding = None\<rparr>)))"
| "dm_oss h i getBucketDetails requestOptions =
     bindE (getString h (ascii ''bucketKey'') i None) (\<lambda>bucketKey.
     bindE (bucket_url bucketKey (ascii ''/details'')) (\<lambda>u.
     Inr (requestOptions\<lparr>url := u\<rparr>)))"
| "dm_oss h i deleteBucket requestOptions =
     bindE (getString h (ascii ''bucketKey'') i None) (\<lambda>bucketKey.
     bindE (bucket_url bucketKey []) (\<lambda>u.
     Inr (requestOptions\<lparr>http_method := ascii ''DELETE'', url := u\<rparr>)))"
| "dm_oss h i uploadObject requestOptions =
     bindE (getString h (ascii ''bucketKey'') i None) (\<lambda>bucketKey.
     bindE (getString h (ascii ''objectName'') i None) (\<lambda>objectName.
     bindE (getString h (ascii ''fileContent'') i None) (\<lambda>fileContent.
     bindE (getString h (ascii ''contentType'') i (Some (ascii ''application/octet-stream'')))
       (\<lambda>contentType.
     bindE (getBoolean h (ascii ''binaryData'') i (Some False)) (\<lambda>binaryData.
     bindE (object_url bucketKey objectName []) (\<lambda>u.
     Inr \<lparr>http_method = ascii ''PUT'',
          url = u,
          req_json = False,
          headers = Some [(ascii ''Content-Type'', contentType)],
          qs = None,
          body = Some (if binaryData then JBuf (fromBase64 h fileContent) else JStr fileContent),
          encoding = None\<rparr>))))))"
| "dm_oss h i downloadObject requestOptions =
     bindE (getString h (ascii ''bucketKey'') i None) (\<lambda>bucketKey.
     bindE (getString h (ascii ''objectName'') i None) (\<lambda>objectName.
     bindE (object_url bucketKey objectName []) (\<lambda>u.
     Inr (requestOptions\<lparr>url := u, req_json := False, encoding := Some JNull\<rparr>))))"
| "dm_oss h i getObjectDetails requestOptions =
     bindE (getString h (ascii ''bucketKey'') i None) (\<lambda>bucketKey.
     bindE (getString h (ascii ''objectName'') i None) (\<lambda>objectName.
     bindE (object_url bucketKey objectName (ascii ''/details'')) (\<lambda>u.
     Inr (requestOptions\<lparr>url := u\<rparr>))))"
| "dm_oss h i deleteObject requestOptions =
     bindE (getString h (ascii ''bucketKey'') i None) (\<lambda>bucketKey.
     bindE (getString h (ascii ''objectName'') i None) (\<lambda>objectName.
     bindE (object_url bucketKey objectName []) (\<lambda>u.
     Inr (requestOptions\<lparr>http_method := ascii ''DELETE'', url := u\<rparr>))))"
| "dm_oss h i copyObject requestOptions =
     bindE (getString h (ascii ''bucketKey'') i None) (\<lambda>bucketKey.
     bindE (getString h (ascii ''objectName'') i None) (\<lambda>objectName.
     bindE (getString h (ascii ''newObjectName'') i None) (\<lambda>newObjectName.
     bindE (encodeURIComponent bucketKey) (\<lambda>e1.
     bindE (encodeURIComponent objectName) (\<lambda>e2.
     bindE (encodeURIComponent newObjectName) (\<lambda>e3.
     Inr (requestOptions\<lparr>
            http_method := ascii ''PUT'',
            url := BASE_URL @ ascii ''/oss/v2/buckets/'' @ e1 @ ascii ''/objects/'' @ e2
                     @ ascii ''/copyTo/'' @ e3\<rparr>)))))))"
| "dm_oss h i _ requestOptions = Inr requestOptions"

definition dm_request :: "dm_operation host \<Rightarrow> nat \<Rightarrow> dm_operation \<Rightarrow> error + request" where
  "dm_request h i operation =
     bindE (dm_switch_url h i operation) (\<lambda>u.
     dm_oss h i operation
       \<lparr>http_method = ascii ''GET'', url = u, req_json = True, headers = Some ACCEPT,
        qs = None, body = None, encoding = None\<rparr>)"

section \<open>One item of the Data Management node (the \<^verbatim>\<open>try\<close> block, lines 350--531)\<close>

definition dm_item :: "dm_operation host \<Rightarrow> nat \<Rightarrow> error + output_item list" where
  "dm_item h i =
     bindE (getOperation h i) (\<lambda>operation.
     bindE (dm_request h i operation) (\<lambda>requestOptions.
     bindE (requestWithAuthentication h i requestOptions) (\<lambda>response.
     bindE (getBoolean h (ascii ''simplify'') i (Some True)) (\<lambda>simplify.
     bindE (getBoolean h (ascii ''splitItems'') i (Some True)) (\<lambda>splitItems.
     Inr (normalize_response simplify splitItems i (parse_body (parseJSON h) response)))))))"

section \<open>The Model Derivative node (ApsModelDerivative.node.ts lines 221--365)\<close>

datatype md_operation =
  createJob | getManifest | deleteManifest | getMetadata | getMetadataTree | getThumbnail

text \<open>
  The body of the translation job, lines 237--248, with the object at
  \<^verbatim>\<open>output.formats[0]\<close> as argument: the assignment
  \<^verbatim>\<open>body.output.formats[0].views = views\<close> of line 252 sets a property of that object,
  and nothing else refers to it.
\<close>

definition createJob_body :: "jsstring \<Rightarrow> (jsstring \<times> jsval) list \<Rightarrow> jsval" where
  "createJob_body urn format =
     JObj [(ascii ''input'', JObj [(ascii ''urn'', JStr urn)]),
           (ascii ''output'', JObj [(ascii ''formats'', JArr [JObj format])])]"

definition designdata_url :: "jsstring \<Rightarrow> jsstring \<Rightarrow> error + jsstring" where
  "designdata_url urn suffix =
     bindE (encodeURIComponent urn) (\<lambda>e1.
     Inr (BASE_URL @ ascii ''/modelderivative/v2/designdata/'' @ e1 @ suffix))"

fun md_request :: "md_operation host \<Rightarrow> nat \<Rightarrow> md_operation \<Rightarrow> jsstring \<Rightarrow> error + request" where
  "md_request h i createJob urn =
     bindE (getString h (ascii ''outputFormat'') i None) (\<lambda>outputFormat.
     bindE (getBoolean h (ascii ''forceRegenerate'') i (Some False)) (\<lambda>forceRegenerate.
     bindE (getBoolean h (ascii ''advancedOutputSettings'') i (Some False))
       (\<lambda>advancedOutputSettings.
     bindE (if advancedOutputSettings
            then bindE (getStrings h (ascii ''views'') i (Some [ascii ''2d'', ascii ''3d'']))
                   (\<lambda>views. Inr (AList.update (ascii ''views'') (JArr (map JStr views))
                                    [(ascii ''type'', JStr outputFormat)]))
            else Inr [(ascii ''type'', JStr outputFormat)]) (\<lambda>format.
     let requestOptions =
           \<lparr>http_method = ascii ''POST'',
            url = BASE_URL @ ascii ''/modelderivative/v2/designdata/job'',
            req_json = True,
            headers = Some [(ascii ''Content-Type'', ascii ''application/json'')],
            qs = None,
            body = Some (createJob_body urn format),
            encoding = None\<rparr>
     in Inr (if forceRegenerate
             then requestOptions\<lparr>qs := Some [(ascii ''force'', JBool True)]\<rparr>
             else requestOptions)))))"
| "md_request h i getManifest urn =
     bindE (getString h (ascii ''acceptEncoding'') i (Some [])) (\<lambda>acceptEncoding.
     bindE (designdata_url urn (ascii ''/manifest'')) (\<lambda>u.
     let requestOptions =
           \<lparr>http_method = ascii ''GET'', url = u, req_json = True, headers = None, qs = None,
            body = None, encoding = None\<rparr>
     in Inr (if acceptEncoding \<noteq> []
             then requestOptions\<lparr>headers := Some [(ascii ''Accept-Encoding'', acceptEncoding)]\<rparr>
             else requestOptions)))"
| "md_request h i deleteManifest urn =
     bindE (designdata_url urn (ascii ''/manifest'')) (\<lambda>u.
     Inr \<lparr>http_method = ascii ''DELETE'', url = u, req_json = True, headers = None, qs = None,
          body = None, encoding = None\<rparr>)"
| "md_request h i getMetadata urn =
     bindE (designdata_url urn (ascii ''/metadata'')) (\<lambda>u.
     Inr \<lparr>http_method = ascii ''GET'', url = u, req_json = True, headers = None, qs = None,
          body = None, encoding = None\<rparr>)"
| "md_request h i getMetadataTree urn =
     bindE (getString h (ascii ''guid'') i None) (\<lambda>guid.
     bindE (getBoolean h (ascii ''forceGetTree'') i (Some False)) (\<lambda>forceGetTree.
     bindE (encodeURIComponent urn) (\<lambda>e1.
     bindE (encodeURIComponent guid) (\<lambda>e2.
     let requestOptions =
           \<lparr>http_method = ascii ''GET'',
            url = BASE_URL @ ascii ''/modelderivative/v2/designdata/'' @ e1 @ ascii ''/metadata/''
                    @ e2,
            req_json = True, headers = None, qs = None, body = None, encoding = None\<rparr>
     in Inr (if forceGetTree
             then requestOptions\<lparr>qs := Some [(ascii ''forceget'', JBool True)]\<rparr>
             else requestOptions)))))"
| "md_request h i getThumbnail urn =
     bindE (getNumber h (ascii ''width'') i (Some 400)) (\<lambda>width.
     bindE (getNumber h (ascii ''height'') i (Some 400)) (\<lambda>height.
     bindE (designdata_url urn (ascii ''/thumbnail'')) (\<lambda>u.
     Inr \<lparr>http_method = ascii ''GET'', url = u, req_json = False,
          headers = Some [(ascii ''Accept'', ascii ''image/png, application/json'')],
          qs = Some [(ascii ''width'', JNum width), (ascii ''height'', JNum height)],
          body = None, encoding = Some JNull\<rparr>)))"

text \<open>
  Lines 343--365. \<^verbatim>\<open>prepareBinaryData(response, 'thumbnail.png', 'image/png')\<close> is kept
  as the record of its arguments.
\<close>

definition isBuffer :: "jsval \<Rightarrow> bool" where
  "isBuffer v = (case v of JBuf bytes \<Rightarrow> True | _ \<Rightarrow> False)"

definition buffer_bytes :: "jsval \<Rightarrow> 8 word list" where
  "buffer_bytes v = (case v of JBuf bytes \<Rightarrow> bytes | _ \<Rightarrow> [])"

definition md_normalize :: "md_operation host \<Rightarrow> md_operation \<Rightarrow> nat \<Rightarrow> jsval \<Rightarrow> output_item list" where
  "md_normalize h operation i response =
     (if operation = getThumbnail \<and> truthy response \<and> isBuffer response
      then [\<lparr>json = JObj [(ascii ''thumbnail'', JStr (toBase64 h (buffer_bytes response))),
                          (ascii ''contentType'', JStr (ascii ''image/png''))],
             pairedItem = PairedItem i,
             binary = Some [(ascii ''data'',
                             \<lparr>content = buffer_bytes response,
                              fileName = ascii ''thumbnail.png'',
                              mimeType = ascii ''image/png''\<rparr>)]\<rparr>]
      else [item (parse_body (parseJSON h) response) i])"

definition md_item :: "md_operation host \<Rightarrow> nat \<Rightarrow> error + output_item list" where
  "md_item h i =
     bindE (getOperation h i) (\<lambda>operation.
     bindE (getString h (ascii ''urn'') i None) (\<lambda>urn.
     bindE (md_request h i operation urn) (\<lambda>requestOptions.
     bindE (requestWithAuthentication h i requestOptions) (\<lambda>response.
     Inr (md_normalize h operation i response)))))"

section \<open>The item loop of \<^verbatim>\<open>execute\<close> (both nodes)\<close>

text \<open>
  \<^verbatim>\<open>
  for (let i = 0; i < items.length; i++) {
    try { ... }
    catch (error) {
      if (this.continueOnFail()) {
        returnData.push({ json: { error: (error as Error).message }, pairedItem: i });
        continue;
      }
      throw new NodeOperationError(this.getNode(), error as Error, { itemIndex: i });
    }
  }
  return [returnData];
  \<close>
  The \<^verbatim>\<open>try\<close> block of either node pushes only after its last call that can throw, so
  an item either fails or yields the items it pushes. The result records the local array
  \<^verbatim>\<open>returnData\<close> as it is when \<^verbatim>\<open>execute\<close> ends, and the error thrown with its
  \<^verbatim>\<open>itemIndex\<close>, if any; when an error is thrown the caller receives the error only.
\<close>

record result =
  returnData :: "output_item list"
  thrown :: "(error \<times> nat) option"

definition error_item :: "error \<Rightarrow> nat \<Rightarrow> output_item" where
  "error_item e i =
     \<lparr>json = JObj [(ascii ''error'', JStr (message e))], pairedItem = PairedIndex i,
      binary = None\<rparr>"

function execute_loop ::
  "(nat \<Rightarrow> error + output_item list) \<Rightarrow> bool \<Rightarrow> nat \<Rightarrow> nat \<Rightarrow> output_item list \<Rightarrow> result" where
  "execute_loop try_block continue n i acc =
     (if i < n then
        (case try_block i of
           Inr pushed \<Rightarrow> execute_loop try_block continue n (i + 1) (acc @ pushed)
         | Inl e \<Rightarrow>
             if continue then execute_loop try_block continue n (i + 1) (acc @ [error_item e i])
             else \<lparr>returnData = acc, thrown = Some (e, i)\<rparr>)
      else \<lparr>returnData = acc, thrown = None\<rparr>)"
  by pat_completeness auto
termination
  by (relation "measure (\<lambda>(t, c, n, i, acc). n - i)") auto

declare execute_loop.simps [simp del]

definition dm_execute :: "dm_operation host \<Rightarrow> nat \<Rightarrow> result" where
  "dm_execute h n = execute_loop (dm_item h) (continueOnFail h) n 0 []"

definition md_execute :: "md_operation host \<Rightarrow> nat \<Rightarrow> result" where
  "md_execute h n = execute_loop (md_item h) (continueOnFail h) n 0 []"

text \<open>What the loop appends to \<^verbatim>\<open>returnData\<close> while it processes item \<open>i\<close>.\<close>

definition appended :: "(nat \<Rightarrow> error + output_item list) \<Rightarrow> bool \<Rightarrow> nat \<Rightarrow> output_item list" where
  "appended try_block continue i =
     (case try_block i of
        Inr pushed \<Rightarrow> pushed
      | Inl e \<Rightarrow> if continue then [error_item e i] else [])"

section \<open>Notions used to state the properties\<close>

text \<open>
  A string is percent-encoded when each of its code units is one that
  \<^verbatim>\<open>encodeURIComponent\<close> leaves as it is, or is a \<^verbatim>\<open>%\<close> followed by two hexadecimal
  digits.
\<close>

definition is_hex :: "16 word \<Rightarrow> bool" where
  "is_hex c = (c \<in> set (ascii ''0123456789ABCDEF''))"

fun pct_encoded :: "jsstring \<Rightarrow> bool" where
  "pct_encoded [] = True"
| "pct_encoded (c # cs) =
     (if c = 0x25
      then (case cs of h1 # h2 # r \<Rightarrow> is_hex h1 \<and> is_hex h2 \<and> pct_encoded r | _ \<Rightarrow> False)
      else unescaped c \<and> pct_encoded cs)"

text \<open>
  The reserved characters of RFC 3986, section 2.2: the general delimiters
  \<^verbatim>\<open>: / ? # [ ] @\<close> and the sub-delimiters \<^verbatim>\<open>! $ & ' ( ) * + , ; =\<close>. Five of them,
  the marks \<^verbatim>\<open>! ' ( ) *\<close>, are in the unescaped set of \<^verbatim>\<open>encodeURIComponent\<close>.
\<close>

definition reserved :: "16 word \<Rightarrow> bool" where
  "reserved c = (c \<in> set (ascii '':/?#[]@!$&()*+,;='') \<or> c = 0x27)"

definition mark :: "16 word \<Rightarrow> bool" where
  "mark c = (c \<in> set (ascii ''!()*'') \<or> c = 0x27)"

text \<open>
  The path pattern of each operation as the wire-level request shapes give it: literal
  text, with its \<^verbatim>\<open>/\<close> separators, and the names of the path parameters, after the base
  URL.
\<close>

datatype segment = Literal string | Parameter string

fun dm_path_pattern :: "dm_operation \<Rightarrow> segment list" where
  "dm_path_pattern getHubs = [Literal ''/project/v1/hubs'']"
| "dm_path_pattern getProjects =
     [Literal ''/project/v1/hubs/'', Parameter ''hubId'', Literal ''/projects'']"
| "dm_path_pattern getTopFolders =
     [Literal ''/project/v1/projects/'', Parameter ''projectId'', Literal ''/topFolders'']"
| "dm_path_pattern getItems =
     [Literal ''/data/v1/projects/'', Parameter ''projectId'', Literal ''/folders/'',
      Parameter ''folderId'', Literal ''/contents'']"
| "dm_path_pattern getItemVersions =
     [Literal ''/data/v1/projects/'', Parameter ''projectId'', Literal ''/items/'',
      Parameter ''itemId'', Literal ''/versions'']"
| "dm_path_pattern listBuckets = [Literal ''/oss/v2/buckets'']"
| "dm_path_pattern createBucket = [Literal ''/oss/v2/buckets'']"
| "dm_path_pattern getBucketDetails =
     [Literal ''/oss/v2/buckets/'', Parameter ''bucketKey'', Literal ''/details'']"
| "dm_path_pattern deleteBucket = [Literal ''/oss/v2/buckets/'', Parameter ''bucketKey'']"
| "dm_path_pattern uploadObject =
     [Literal ''/oss/v2/buckets/'', Parameter ''bucketKey'', Literal ''/objects/'',
      Parameter ''objectName'']"
| "dm_path_pattern downloadObject =
     [Literal ''/oss/v2/buckets/'', Parameter ''bucketKey'', Literal ''/objects/'',
      Parameter ''objectName'']"
| "dm_path_pattern getObjectDetails =
     [Literal ''/oss/v2/buckets/'', Parameter ''bucketKey'', Literal ''/objects/'',
      Parameter ''objectName'', Literal ''/details'']"
| "dm_path_pattern deleteObject =
     [Literal ''/oss/v2/buckets/'', Parameter ''bucketKey'', Literal ''/objects/'',
      Parameter ''objectName'']"
| "dm_path_pattern copyObject =
     [Literal ''/oss/v2/buckets/'', Parameter ''bucketKey'', Literal ''/objects/'',
      Parameter ''objectName'', Literal ''/copyTo/'', Parameter ''newObjectName'']"

fun md_path_pattern :: "md_operation \<Rightarrow> segment list" where
  "md_path_pattern createJob = [Literal ''/modelderivative/v2/designdata/job'']"
| "md_path_pattern getManifest =
     [Literal ''/modelderivative/v2/designdata/'', Parameter ''urn'', Literal ''/manifest'']"
| "md_path_pattern deleteManifest =
     [Literal ''/modelderivative/v2/designdata/'', Parameter ''urn'', Literal ''/manifest'']"
| "md_path_pattern getMetadata =
     [Literal ''/modelderivative/v2/designdata/'', Parameter ''urn'', Literal ''/metadata'']"
| "md_path_pattern getMetadataTree =
     [Literal ''/modelderivative/v2/designdata/'', Parameter ''urn'', Literal ''/metadata/'',
      Parameter ''guid'']"
| "md_path_pattern getThumbnail =
     [Literal ''/modelderivative/v2/designdata/'', Parameter ''urn'', Literal ''/thumbnail'']"

text \<open>
  A piece of a URL fills a segment of a pattern: a literal segment by its own text, a
  parameter by the percent-encoding of the value the host gives for it, in which the only
  reserved characters are marks.
\<close>

fun fills :: "'op host \<Rightarrow> nat \<Rightarrow> segment \<Rightarrow> jsstring \<Rightarrow> bool" where
  "fills h i (Literal s) t = (t = ascii s)"
| "fills h i (Parameter p) t =
     (case getString h (ascii p) i None of
        Inl e \<Rightarrow> False
      | Inr v \<Rightarrow> encodeURIComponent v = Inr t \<and> pct_encoded t \<and>
                 list_all (\<lambda>c. reserved c \<longrightarrow> mark c) t)"

text \<open>
  The translation-job request without the optional views field, written from the
  wire-level shape \<^verbatim>\<open>POST {base}/modelderivative/v2/designdata/job\<close> with body
  \<^verbatim>\<open>{input:{urn}, output:{formats:[{type}]}}\<close> and optional \<^verbatim>\<open>?force=true\<close>.
\<close>

definition createJob_baseline :: "jsstring \<Rightarrow> jsstring \<Rightarrow> bool \<Rightarrow> request" where
  "createJob_baseline urn outputFormat force =
     \<lparr>http_method = ascii ''POST'',
      url = ascii ''https://developer.api.autodesk.com/modelderivative/v2/designdata/job'',
      req_json = True,
      headers = Some [(ascii ''Content-Type'', ascii ''application/json'')],
      qs = (if force then Some [(ascii ''force'', JBool True)] else None),
      body = Some (JObj [(ascii ''input'', JObj [(ascii ''urn'', JStr urn)]),
                         (ascii ''output'',
                          JObj [(ascii ''formats'',
                                 JArr [JObj [(ascii ''type'', JStr outputFormat)]])])]),
      encoding = None\<rparr>"

section \<open>Example hosts\<close>

text \<open>
  A host given by its operations, its string and boolean parameters and the transport's
  answers. A parameter that is not set takes the fallback of the call and is a
  configuration error when the call has none. The example hosts parse no JSON and their
  base64 functions return the empty result.
\<close>

definition example_host ::
  "(nat \<Rightarrow> error + 'op) \<Rightarrow> (jsstring \<times> jsstring) list \<Rightarrow> (jsstring \<times> bool) list \<Rightarrow>
   (nat \<Rightarrow> error + jsval) \<Rightarrow> bool \<Rightarrow> 'op host" where
  "example_host operations strings booleans responses policy =
     \<lparr>getOperation = operations,
      getString = (\<lambda>name i fallback.
        case map_of strings name of
          Some v \<Rightarrow> Inr v
        | None \<Rightarrow> (case fallback of
                     Some v \<Rightarrow> Inr v
                   | None \<Rightarrow> Inl (ConfigurationError (ascii ''Could not get parameter'')))),
      getBoolean = (\<lambda>name i fallback.
        case map_of booleans name of
          Some v \<Rightarrow> Inr v
        | None \<Rightarrow> (case fallback of
                     Some v \<Rightarrow> Inr v
                   | None \<Rightarrow> Inl (ConfigurationError (ascii ''Could not get parameter'')))),
      getNumber = (\<lambda>name i fallback.
        case fallback of
          Some v \<Rightarrow> Inr v
        | None \<Rightarrow> Inl (ConfigurationError (ascii ''Could not get parameter''))),
      getStrings = (\<lambda>name i fallback.
        case fallback of
          Some v \<Rightarrow> Inr v
        | None \<Rightarrow> Inl (ConfigurationError (ascii ''Could not get parameter''))),
      requestWithAuthentication = (\<lambda>i requestOptions. responses i),
      continueOnFail = policy,
      parseJSON = (\<lambda>s. None),
      fromBase64 = (\<lambda>s. []),
      toBase64 = (\<lambda>bytes. [])\<rparr>"

text \<open>
  Three items: the first and the third list the hubs, the second asks for the projects of
  a hub without a \<^verbatim>\<open>hubId\<close>.
\<close>

definition hubs_host :: "bool \<Rightarrow> dm_operation host" where
  "hubs_host policy =
     example_host (\<lambda>i. if i = 1 then Inr getProjects else Inr getHubs) [] []
       (\<lambda>i. Inr (JObj [(ascii ''data'', JArr [JObj [(ascii ''id'', JStr (ascii ''a''))]])]))
       policy"

text \<open>The object download, answered by the two bytes \<^verbatim>\<open>68 69\<close>.\<close>

definition download_host :: "dm_operation host" where
  "download_host =
     example_host (\<lambda>i. Inr downloadObject)
       [(ascii ''bucketKey'', ascii ''b''), (ascii ''objectName'', ascii ''o'')] []
       (\<lambda>i. Inr (JBuf [0x68, 0x69])) False"

text \<open>Folder contents, with path parameters that hold \<^verbatim>\<open>/\<close>, a space and \<^verbatim>\<open>?\<close>.\<close>

definition items_host :: "dm_operation host" where
  "items_host =
     example_host (\<lambda>i. Inr getItems)
       [(ascii ''projectId'', ascii ''a/b''), (ascii ''folderId'', ascii ''c d?'')] []
       (\<lambda>i. Inr (JObj [])) False"

text \<open>The projects of a hub whose \<^verbatim>\<open>hubId\<close> holds the marks \<^verbatim>\<open>! ( ) *\<close>.\<close>

definition marks_host :: "dm_operation host" where
  "marks_host =
     example_host (\<lambda>i. Inr getProjects) [(ascii ''hubId'', ascii ''a!b(c)*'')] []
       (\<lambda>i. Inr (JObj [])) False"

text \<open>A Model Derivative host with the advanced-output-settings toggle as argument.\<close>

definition derivative_host :: "bool \<Rightarrow> bool \<Rightarrow> md_operation host" where
  "derivative_host policy advanced =
     example_host
       (\<lambda>i. Inr (if i = 0 then createJob else if i = 1 then getMetadataTree else getManifest))
       [(ascii ''urn'', ascii ''a/b''), (ascii ''outputFormat'', ascii ''svf'')]
       [(ascii ''advancedOutputSettings'', advanced)]
       (\<lambda>i. Inr (JObj [(ascii ''result'', JStr (ascii ''success''))]))
       policy"

section \<open>Facts about strings and objects\<close>

lemma of_char_nat_bound: "(of_char c :: nat) < 256"
proof -
  have "(of_char c :: nat) mod 256 < 256" by simp
  then show ?thesis by (simp only: of_char_mod_256)
qed

lemma ascii_eq_iff [simp]: "ascii s = ascii t \<longleftrightarrow> s = t"
proof -
  have "inj (\<lambda>c::char. (of_nat (of_char c) :: 16 word))"
  proof (rule injI)
    fix x y :: char
    assume h: "(of_nat (of_char x) :: 16 word) = of_nat (of_char y)"
    have "(of_char x :: nat) < 65536"
      using of_char_nat_bound [of x] by linarith
    moreover have "(of_char y :: nat) < 65536"
      using of_char_nat_bound [of y] by linarith
    ultimately have "(of_char x :: nat) = of_char y"
      using h by (simp add: word_of_nat_eq_iff take_bit_nat_eq_self)
    then show "x = y" by simp
  qed
  then show ?thesis
    unfolding ascii_def by (simp add: inj_map_eq_map)
qed

lemma map_of_rev_distinct:
  "distinct (map fst xs) \<Longrightarrow> map_of (rev xs) = map_of xs"
  by (rule map_of_inject_set [THEN iffD2]) (simp_all add: rev_map [symmetric])

lemma map_of_fold_update:
  "map_of (fold (\<lambda>(k, x). AList.update k x) kvs base) = map_of base ++ map_of (rev kvs)"
proof (induction kvs arbitrary: base)
  case Nil
  show ?case by simp
next
  case (Cons p kvs)
  obtain k x where p: "p = (k, x)" by (cases p)
  have "map_of (fold (\<lambda>(k, x). AList.update k x) (p # kvs) base)
        = map_of (AList.update k x base) ++ map_of (rev kvs)"
    using Cons.IH [of "AList.update k x base"] by (simp add: p)
  also have "\<dots> = map_of base ++ map_of (rev (p # kvs))"
    by (rule ext) (simp add: p update_conv map_add_def split: option.splits)
  finally show ?case .
qed

lemma distinct_fold_update:
  "distinct (map fst base) \<Longrightarrow> distinct (map fst (fold (\<lambda>(k, x). AList.update k x) kvs base))"
  by (induction kvs arbitrary: base) (auto simp: distinct_update)

text \<open>Reading a property of an object built by a literal with a spread.\<close>

lemma get_prop_spread:
  assumes "distinct (map fst base)"
  shows "get_prop (JObj (spread base v)) k =
           (if has_own v k then get_prop v k else get_prop (JObj base) k)"
proof -
  have d: "distinct (map fst (spread base v))"
    unfolding spread_def by (rule distinct_fold_update [OF assms])
  have "map_of (rev (spread base v)) = map_of base ++ map_of (rev (own_props v))"
    using map_of_rev_distinct [OF d] by (simp add: spread_def map_of_fold_update)
  then show ?thesis
    using map_of_rev_distinct [OF assms]
    by (simp add: get_prop_def has_own_def map_add_def split: option.splits)
qed


lemma get_prop_JObj:
  "get_prop (JObj kvs) k = (case map_of (rev kvs) k of Some x \<Rightarrow> x | None \<Rightarrow> JUndefined)"
  by (simp add: get_prop_def)

lemma has_own_JObj: "has_own (JObj kvs) k = (map_of (rev kvs) k \<noteq> None)"
  by (simp add: has_own_def)

lemma get_prop_absent: "\<not> has_own v k \<Longrightarrow> get_prop v k = JUndefined"
  by (simp add: has_own_def get_prop_def)

lemma get_prop_undefined [simp]: "get_prop JUndefined k = JUndefined"
  by (simp add: get_prop_def)

lemma spread_empty [simp]: "spread base (JObj []) = base"
  by (simp add: spread_def)

lemma length_ascii [simp]: "length (ascii s) = length s"
  by (simp add: ascii_def)

lemma ascii_Cons: "ascii (c # s) = of_nat (of_char c) # ascii s"
  by (simp add: ascii_def)

lemma ascii_Nil: "ascii [] = []"
  by (simp add: ascii_def)

lemma ascii_append: "ascii (s @ t) = ascii s @ ascii t"
  by (simp add: ascii_def)

lemma bindE_Inr: "bindE m f = Inr r \<longleftrightarrow> (\<exists>a. m = Inr a \<and> f a = Inr r)"
  by (cases m) (simp_all add: bindE_def)

section \<open>Facts about \<^verbatim>\<open>encodeURIComponent\<close>\<close>

lemma is_hex_hex_digit: "is_hex (hex_digit n)"
  unfolding is_hex_def hex_digit_def by (rule nth_mem) simp

lemma unescaped_not_percent: "unescaped c \<Longrightarrow> c \<noteq> 0x25"
  by (auto simp: unescaped_def ascii_Cons ascii_Nil)

lemma unescaped_reserved_mark: "unescaped c \<Longrightarrow> reserved c \<Longrightarrow> mark c"
  by (auto simp: unescaped_def reserved_def mark_def ascii_Cons ascii_Nil)

lemma is_hex_not_reserved: "is_hex c \<Longrightarrow> \<not> reserved c"
  by (auto simp: is_hex_def reserved_def ascii_Cons ascii_Nil)

lemma pct_encoded_percent: "pct_encoded (percent octets @ r) = pct_encoded r"
  by (induction octets) (simp_all add: percent_def is_hex_hex_digit)

lemma encode_pct_encoded: "encode s = Some t \<Longrightarrow> pct_encoded t"
proof (induction s arbitrary: t rule: encode.induct)
  case 1
  then show ?case by simp
next
  case (2 c cs)
  then show ?case
    by (auto simp: pct_encoded_percent unescaped_not_percent split: if_splits list.splits)
qed

lemma pct_encoded_reserved_mark:
  "pct_encoded t \<Longrightarrow> list_all (\<lambda>c. reserved c \<longrightarrow> mark c) t"
proof (induction t rule: pct_encoded.induct)
  case 1
  then show ?case by simp
next
  case (2 c cs)
  have p: "\<not> reserved (0x25 :: 16 word)"
    by (simp add: reserved_def ascii_Cons ascii_Nil)
  show ?case
  proof (cases "c = 0x25")
    case True
    with 2 p show ?thesis
      by (auto simp: is_hex_not_reserved split: list.splits)
  next
    case False
    with 2 show ?thesis
      by (auto simp: unescaped_reserved_mark)
  qed
qed

lemma encodeURIComponent_safe:
  "encodeURIComponent v = Inr t \<Longrightarrow>
     pct_encoded t \<and> list_all (\<lambda>c. reserved c \<longrightarrow> mark c) t"
  by (auto simp: encodeURIComponent_def encode_pct_encoded pct_encoded_reserved_mark
      split: option.splits)

lemma encode_examples:
  "encodeURIComponent (ascii ''a/b'') = Inr (ascii ''a%2Fb'')"
  "encodeURIComponent (ascii ''c d?'') = Inr (ascii ''c%20d%3F'')"
  "encodeURIComponent (ascii ''b'') = Inr (ascii ''b'')"
  "encodeURIComponent (ascii ''o'') = Inr (ascii ''o'')"
  by (simp_all add: encodeURIComponent_def ascii_Cons ascii_Nil unescaped_def is_lead_def
      is_trail_def percent_def utf8_def hex_digit_def)

text \<open>Code points beyond ASCII are written as their UTF-8 octets; a lone surrogate throws.\<close>

lemma encode_unicode_examples:
  "encodeURIComponent [0xD83D, 0xDE00, 0xE9, 0x20AC] = Inr (ascii ''%F0%9F%98%80%C3%A9%E2%82%AC'')"
  "encodeURIComponent [0xD83D] = Inl (URIError (ascii ''URI malformed''))"
  by (simp_all add: encodeURIComponent_def ascii_Cons ascii_Nil unescaped_def is_lead_def
      is_trail_def pair_code_point_def percent_def utf8_def hex_digit_def)

section \<open>Facts about the resolvers\<close>

lemma fills_Parameter:
  "getString h (ascii p) i None = Inr v \<Longrightarrow> encodeURIComponent v = Inr t \<Longrightarrow>
   fills h i (Parameter p) t"
  by (simp add: encodeURIComponent_safe)

lemma bucket_url_Inr:
  "bucket_url k s = Inr u \<longleftrightarrow>
     (\<exists>e1. encodeURIComponent k = Inr e1 \<and> u = BASE_URL @ ascii ''/oss/v2/buckets/'' @ e1 @ s)"
  by (auto simp: bucket_url_def bindE_Inr)

lemma object_url_Inr:
  "object_url k n s = Inr u \<longleftrightarrow>
     (\<exists>e1 e2. encodeURIComponent k = Inr e1 \<and> encodeURIComponent n = Inr e2 \<and>
        u = BASE_URL @ ascii ''/oss/v2/buckets/'' @ e1 @ ascii ''/objects/'' @ e2 @ s)"
  by (auto simp: object_url_def bindE_Inr)

lemma designdata_url_Inr:
  "designdata_url k s = Inr u \<longleftrightarrow>
     (\<exists>e1. encodeURIComponent k = Inr e1 \<and>
        u = BASE_URL @ ascii ''/modelderivative/v2/designdata/'' @ e1 @ s)"
  by (auto simp: designdata_url_def bindE_Inr)

lemma dm_request_url:
  assumes "dm_request h i operation = Inr r"
  shows "\<exists>ts. list_all2 (fills h i) (dm_path_pattern operation) ts \<and> url r = BASE_URL @ concat ts"
proof (cases operation)
  case getHubs
  with assms show ?thesis
    by (auto simp: dm_request_def bindE_Inr list_all2_Cons1)
next
  case getProjects
  with assms show ?thesis
    by (auto simp: dm_request_def bindE_Inr list_all2_Cons1 dest: encodeURIComponent_safe)
next
  case getTopFolders
  with assms show ?thesis
    by (auto simp: dm_request_def bindE_Inr list_all2_Cons1 dest: encodeURIComponent_safe)
next
  case getItems
  with assms show ?thesis
    by (auto simp: dm_request_def bindE_Inr list_all2_Cons1 dest: encodeURIComponent_safe)
next
  case getItemVersions
  with assms show ?thesis
    by (auto simp: dm_request_def bindE_Inr list_all2_Cons1 dest: encodeURIComponent_safe)
next
  case listBuckets
  with assms show ?thesis
    by (auto simp: dm_request_def bindE_Inr list_all2_Cons1)
next
  case createBucket
  with assms show ?thesis
    by (auto simp: dm_request_def bindE_Inr list_all2_Cons1)
next
  case getBucketDetails
  with assms show ?thesis
    by (auto simp: dm_request_def bindE_Inr list_all2_Cons1 bucket_url_Inr
        dest: encodeURIComponent_safe)
next
  case deleteBucket
  with assms show ?thesis
    by (auto simp: dm_request_def bindE_Inr list_all2_Cons1 bucket_url_Inr
        dest: encodeURIComponent_safe)
next
  case uploadObject
  with assms show ?thesis
    by (auto simp: dm_request_def bindE_Inr list_all2_Cons1 object_url_Inr
        dest: encodeURIComponent_safe)
next
  case downloadObject
  with assms show ?thesis
    by (auto simp: dm_request_def bindE_Inr list_all2_Cons1 object_url_Inr
        dest: encodeURIComponent_safe)
next
  case getObjectDetails
  with assms show ?thesis
    by (auto simp: dm_request_def bindE_Inr list_all2_Cons1 object_url_Inr
        dest: encodeURIComponent_safe)
next
  case deleteObject
  with assms show ?thesis
    by (auto simp: dm_request_def bindE_Inr list_all2_Cons1 object_url_Inr
        dest: encodeURIComponent_safe)
next
  case copyObject
  with assms show ?thesis
    by (auto simp: dm_request_def bindE_Inr list_all2_Cons1 dest: encodeURIComponent_safe)
qed

lemma md_request_url:
  assumes "getString h (ascii ''urn'') i None = Inr urn"
    and "md_request h i operation urn = Inr r"
  shows "\<exists>ts. list_all2 (fills h i) (md_path_pattern operation) ts \<and> url r = BASE_URL @ concat ts"
proof (cases operation)
  case createJob
  with assms show ?thesis
    by (auto simp: bindE_Inr list_all2_Cons1 Let_def split: if_splits)
next
  case getManifest
  with assms show ?thesis
    by (auto simp: bindE_Inr list_all2_Cons1 designdata_url_Inr Let_def
        dest: encodeURIComponent_safe split: if_splits)
next
  case deleteManifest
  with assms show ?thesis
    by (auto simp: bindE_Inr list_all2_Cons1 designdata_url_Inr dest: encodeURIComponent_safe)
next
  case getMetadata
  with assms show ?thesis
    by (auto simp: bindE_Inr list_all2_Cons1 designdata_url_Inr dest: encodeURIComponent_safe)
next
  case getMetadataTree
  with assms show ?thesis
    by (auto simp: bindE_Inr list_all2_Cons1 Let_def dest: encodeURIComponent_safe
        split: if_splits)
next
  case getThumbnail
  with assms show ?thesis
    by (auto simp: bindE_Inr list_all2_Cons1 designdata_url_Inr dest: encodeURIComponent_safe)
qed

section \<open>Facts about the item loop\<close>

lemma execute_loop_continue:
  "i \<le> n \<Longrightarrow> execute_loop t True n i acc =
     \<lparr>returnData = acc @ concat (map (appended t True) [i..<n]), thrown = None\<rparr>"
proof (induction t True n i acc rule: execute_loop.induct)
  case (1 t n i acc)
  show ?case
  proof (cases "i < n")
    case True
    then have u: "[i..<n] = i # [i + 1..<n]" by (simp add: upt_conv_Cons)
    show ?thesis
    proof (cases "t i")
      case (Inl e)
      with True 1 show ?thesis
        by (subst execute_loop.simps) (simp add: u appended_def)
    next
      case (Inr pushed)
      with True 1 show ?thesis
        by (subst execute_loop.simps) (simp add: u appended_def)
    qed
  next
    case False
    with 1 show ?thesis by (subst execute_loop.simps) simp
  qed
qed

lemma execute_loop_abort:
  "i0 \<le> i \<Longrightarrow> i < n \<Longrightarrow> t i = Inl e \<Longrightarrow> (\<forall>j. i0 \<le> j \<and> j < i \<longrightarrow> \<not> isl (t j)) \<Longrightarrow>
   execute_loop t False n i0 acc =
     \<lparr>returnData = acc @ concat (map (appended t False) [i0..<i]), thrown = Some (e, i)\<rparr>"
proof (induction t False n i0 acc rule: execute_loop.induct)
  case (1 t n i0 acc)
  show ?case
  proof (cases "i0 = i")
    case True
    with 1 show ?thesis by (subst execute_loop.simps) simp
  next
    case False
    with 1 have lt: "i0 < i" "i0 < n" by simp_all
    then have u: "[i0..<i] = i0 # [i0 + 1..<i]" by (simp add: upt_conv_Cons)
    from lt 1 have "\<not> isl (t i0)" by simp
    then obtain pushed where p: "t i0 = Inr pushed" by (cases "t i0") simp_all
    have "execute_loop t False n (i0 + 1) (acc @ pushed) =
            \<lparr>returnData = (acc @ pushed) @ concat (map (appended t False) [i0 + 1..<i]),
             thrown = Some (e, i)\<rparr>"
      using 1(3-) lt p by (intro "1.hyps"(2)) auto
    then show ?thesis
      using lt p by (subst execute_loop.simps) (simp add: u appended_def)
  qed
qed

lemma execute_loop_prefix:
  "i \<le> n \<Longrightarrow> \<exists>k. i \<le> k \<and> k \<le> n \<and>
     returnData (execute_loop t c n i acc) = acc @ concat (map (appended t c) [i..<k])"
proof (induction t c n i acc rule: execute_loop.induct)
  case (1 t c n i acc)
  show ?case
  proof (cases "i < n")
    case False
    with 1 have "returnData (execute_loop t c n i acc) = acc @ concat (map (appended t c) [i..<i])"
      by (subst execute_loop.simps) simp
    with 1 show ?thesis by blast
  next
    case True
    show ?thesis
    proof (cases "t i")
      case (Inr pushed)
      with True 1 obtain k where k: "i + 1 \<le> k" "k \<le> n"
        "returnData (execute_loop t c n (i + 1) (acc @ pushed)) =
           (acc @ pushed) @ concat (map (appended t c) [i + 1..<k])"
        by fastforce
      then have u: "[i..<k] = i # [i + 1..<k]" by (simp add: upt_conv_Cons)
      have "returnData (execute_loop t c n i acc) = acc @ concat (map (appended t c) [i..<k])"
        using True Inr k by (subst execute_loop.simps) (simp add: u appended_def)
      with k show ?thesis by (intro exI [of _ k]) simp
    next
      case (Inl e)
      show ?thesis
      proof (cases c)
        case True
        with \<open>i < n\<close> Inl 1 obtain k where k: "i + 1 \<le> k" "k \<le> n"
          "returnData (execute_loop t c n (i + 1) (acc @ [error_item e i])) =
             (acc @ [error_item e i]) @ concat (map (appended t c) [i + 1..<k])"
          by fastforce
        then have u: "[i..<k] = i # [i + 1..<k]" by (simp add: upt_conv_Cons)
        have "returnData (execute_loop t c n i acc) = acc @ concat (map (appended t c) [i..<k])"
          using True \<open>i < n\<close> Inl k by (subst execute_loop.simps) (simp add: u appended_def)
        with k show ?thesis by (intro exI [of _ k]) simp
      next
        case False
        have "returnData (execute_loop t c n i acc) = acc @ concat (map (appended t c) [i..<i])"
          using False \<open>i < n\<close> Inl by (subst execute_loop.simps) simp
        with 1 show ?thesis by blast
      qed
    qed
  qed
qed

lemma normalize_response_paired:
  "out \<in> set (normalize_response s sp i b) \<Longrightarrow> paired_index (pairedItem out) = i"
  by (auto simp: normalize_response_def item_def split: jsval.splits if_splits)

lemma md_normalize_paired:
  "out \<in> set (md_normalize h operation i b) \<Longrightarrow> paired_index (pairedItem out) = i"
  by (auto simp: md_normalize_def item_def split: if_splits)

lemma dm_item_paired:
  "dm_item h i = Inr pushed \<Longrightarrow> out \<in> set pushed \<Longrightarrow> paired_index (pairedItem out) = i"
  by (auto simp: dm_item_def bindE_Inr normalize_response_paired)

lemma md_item_paired:
  "md_item h i = Inr pushed \<Longrightarrow> out \<in> set pushed \<Longrightarrow> paired_index (pairedItem out) = i"
  by (auto simp: md_item_def bindE_Inr md_normalize_paired)

lemma appended_paired:
  assumes "\<And>pushed out. t i = Inr pushed \<Longrightarrow> out \<in> set pushed \<Longrightarrow>
             paired_index (pairedItem out) = i"
    and "out \<in> set (appended t c i)"
  shows "paired_index (pairedItem out) = i"
  using assms by (cases "t i") (auto simp: appended_def error_item_def split: if_splits)

section \<open>The example hosts at work\<close>

lemma hubs_item_ok:
  "i \<noteq> Suc 0 \<Longrightarrow> dm_item (hubs_host c) i =
     Inr [item (JObj [(ascii ''id'', JStr (ascii ''a'')), (ascii ''type'', JUndefined),
                      (ascii ''href'', JUndefined)]) i]"
  by (simp add: dm_item_def hubs_host_def example_host_def dm_request_def bindE_def
      parse_body_def normalize_response_def get_prop_def simplifyEntity_def entity_href_def
      entity_attributes_def coalesce_def spread_def)

lemma hubs_item_fail:
  "dm_item (hubs_host c) (Suc 0) = Inl (ConfigurationError (ascii ''Could not get parameter''))"
  by (simp add: dm_item_def hubs_host_def example_host_def dm_request_def bindE_def)

text \<open>
  The thumbnail path of the Model Derivative node: a Buffer answer yields one item with
  the base64 text, the content type and the bytes attached under \<^verbatim>\<open>data\<close>.
\<close>

lemma thumbnail_output:
  assumes "getOperation h i = Inr getThumbnail"
    and "getString h (ascii ''urn'') i None = Inr urn"
    and "md_request h i getThumbnail urn = Inr requestOptions"
    and "requestWithAuthentication h i requestOptions = Inr (JBuf bytes)"
  shows "md_item h i =
     Inr [\<lparr>json = JObj [(ascii ''thumbnail'', JStr (toBase64 h bytes)),
                        (ascii ''contentType'', JStr (ascii ''image/png''))],
           pairedItem = PairedItem i,
           binary = Some [(ascii ''data'',
                           \<lparr>content = bytes, fileName = ascii ''thumbnail.png'',
                            mimeType = ascii ''image/png''\<rparr>)]\<rparr>]"
  using assms
  by (simp add: md_item_def bindE_def md_normalize_def isBuffer_def buffer_bytes_def)

section \<open>Properties\<close>

text \<open>
  C1. In the flattened record the attributes are spread after \<^verbatim>\<open>id\<close>, \<^verbatim>\<open>type\<close> and
  \<^verbatim>\<open>href\<close>. For each of these three names the flattened value is the attribute of that
  name when the attributes container holds one, and the extracted identity or link value
  otherwise.
\<close>

theorem simplifyEntity_precedence:
  "get_prop (simplifyEntity e) (ascii ''id'') =
     (if has_own (entity_attributes e) (ascii ''id'')
      then get_prop (entity_attributes e) (ascii ''id'') else get_prop e (ascii ''id''))
   \<and> get_prop (simplifyEntity e) (ascii ''type'') =
     (if has_own (entity_attributes e) (ascii ''type'')
      then get_prop (entity_attributes e) (ascii ''type'') else get_prop e (ascii ''type''))
   \<and> get_prop (simplifyEntity e) (ascii ''href'') =
     (if has_own (entity_attributes e) (ascii ''href'')
      then get_prop (entity_attributes e) (ascii ''href'') else entity_href e)"
proof -
  have "get_prop (simplifyEntity e) k =
          (if has_own (entity_attributes e) k then get_prop (entity_attributes e) k
           else get_prop (JObj [(ascii ''id'', get_prop e (ascii ''id'')),
                                (ascii ''type'', get_prop e (ascii ''type'')),
                                (ascii ''href'', entity_href e)]) k)" for k
    by (simp add: simplifyEntity_def get_prop_spread)
  then show ?thesis
    by (simp add: get_prop_JObj)
qed

text \<open>An entity without attributes keeps its own \<^verbatim>\<open>id\<close>.\<close>

theorem simplifyEntity_precedence_witness:
  "get_prop (simplifyEntity (JObj [(ascii ''id'', JStr (ascii ''a''))])) (ascii ''id'')
     = JStr (ascii ''a'')"
  using simplifyEntity_precedence [of "JObj [(ascii ''id'', JStr (ascii ''a''))]"]
  by (simp add: entity_attributes_def get_prop_JObj has_own_JObj)

text \<open>
  The entity \<^verbatim>\<open>{id: "a", attributes: {id: "b"}}\<close>: the flattened \<^verbatim>\<open>id\<close> is the
  attribute \<^verbatim>\<open>"b"\<close>, not the identity \<^verbatim>\<open>"a"\<close>.
\<close>

theorem simplifyEntity_precedence_counterexample:
  "get_prop (simplifyEntity
      (JObj [(ascii ''id'', JStr (ascii ''a'')),
             (ascii ''attributes'', JObj [(ascii ''id'', JStr (ascii ''b''))])])) (ascii ''id'')
     = JStr (ascii ''b'')
   \<and> get_prop (JObj [(ascii ''id'', JStr (ascii ''a'')),
             (ascii ''attributes'', JObj [(ascii ''id'', JStr (ascii ''b''))])]) (ascii ''id'')
     = JStr (ascii ''a'')
   \<and> JStr (ascii ''b'') \<noteq> JStr (ascii ''a'')"
  by (simp add: simplifyEntity_def entity_attributes_def entity_href_def get_prop_def
      spread_def coalesce_def)

text \<open>
  C2. The object download of the Data Management node has no binary path: when the
  transport answers it with a Buffer, the item pushed has the Buffer itself as its
  \<^verbatim>\<open>json\<close> and no binary attachment.
\<close>

theorem downloadObject_output:
  "dm_item download_host 0 =
     Inr [\<lparr>json = JBuf [0x68, 0x69], pairedItem = PairedItem 0, binary = None\<rparr>]"
  by (simp add: dm_item_def download_host_def example_host_def dm_request_def bindE_def
      object_url_def encode_examples parse_body_def normalize_response_def get_prop_def
      index_keys_def item_def)

text \<open>
  C3. On a record with neither an \<^verbatim>\<open>attributes\<close> nor a \<^verbatim>\<open>links\<close> field, flattening
  keeps the record's \<^verbatim>\<open>id\<close> and \<^verbatim>\<open>type\<close> (\<^verbatim>\<open>undefined\<close> when the record has
  none), sets \<^verbatim>\<open>href\<close> to \<^verbatim>\<open>undefined\<close> and drops every other field; flattening the
  result once more returns it unchanged.
\<close>

theorem simplifyEntity_flat:
  assumes "\<not> has_own r (ascii ''attributes'')" and "\<not> has_own r (ascii ''links'')"
  shows "simplifyEntity r =
           JObj [(ascii ''id'', get_prop r (ascii ''id'')),
                 (ascii ''type'', get_prop r (ascii ''type'')),
                 (ascii ''href'', JUndefined)]
         \<and> simplifyEntity (simplifyEntity r) = simplifyEntity r"
proof -
  have a: "entity_attributes r = JObj []"
    using assms(1) by (simp add: entity_attributes_def get_prop_absent)
  have l: "entity_href r = JUndefined"
    using assms(2) by (simp add: entity_href_def get_prop_absent coalesce_def)
  have 1: "simplifyEntity r =
           JObj [(ascii ''id'', get_prop r (ascii ''id'')),
                 (ascii ''type'', get_prop r (ascii ''type'')),
                 (ascii ''href'', JUndefined)]"
    by (simp add: simplifyEntity_def a l)
  have 2: "simplifyEntity (JObj [(ascii ''id'', x), (ascii ''type'', y), (ascii ''href'', JUndefined)])
        = JObj [(ascii ''id'', x), (ascii ''type'', y), (ascii ''href'', JUndefined)]" for x y
    by (simp add: simplifyEntity_def entity_attributes_def entity_href_def get_prop_JObj
        coalesce_def)
  show ?thesis by (simp add: 1 2)
qed

theorem simplifyEntity_flat_witness:
  "\<not> has_own (JObj [(ascii ''id'', JStr (ascii ''a'')), (ascii ''name'', JStr (ascii ''x''))])
       (ascii ''attributes'')
   \<and> \<not> has_own (JObj [(ascii ''id'', JStr (ascii ''a'')), (ascii ''name'', JStr (ascii ''x''))])
       (ascii ''links'')
   \<and> simplifyEntity (JObj [(ascii ''id'', JStr (ascii ''a'')), (ascii ''name'', JStr (ascii ''x''))])
     = JObj [(ascii ''id'', JStr (ascii ''a'')), (ascii ''type'', JUndefined),
             (ascii ''href'', JUndefined)]"
  using simplifyEntity_flat
    [of "JObj [(ascii ''id'', JStr (ascii ''a'')), (ascii ''name'', JStr (ascii ''x''))]"]
  by (simp add: has_own_JObj get_prop_JObj)

text \<open>
  The flat record \<^verbatim>\<open>{id: "a", type: "items", href: "u", name: "x"}\<close> has neither
  field, and flattening it loses \<^verbatim>\<open>name\<close> and \<^verbatim>\<open>href\<close>.
\<close>

theorem simplifyEntity_flat_counterexample:
  "\<not> has_own (JObj [(ascii ''id'', JStr (ascii ''a'')), (ascii ''type'', JStr (ascii ''items'')),
                    (ascii ''href'', JStr (ascii ''u'')), (ascii ''name'', JStr (ascii ''x''))])
       (ascii ''attributes'')
   \<and> \<not> has_own (JObj [(ascii ''id'', JStr (ascii ''a'')), (ascii ''type'', JStr (ascii ''items'')),
                      (ascii ''href'', JStr (ascii ''u'')), (ascii ''name'', JStr (ascii ''x''))])
       (ascii ''links'')
   \<and> simplifyEntity
       (JObj [(ascii ''id'', JStr (ascii ''a'')), (ascii ''type'', JStr (ascii ''items'')),
              (ascii ''href'', JStr (ascii ''u'')), (ascii ''name'', JStr (ascii ''x''))])
     = JObj [(ascii ''id'', JStr (ascii ''a'')), (ascii ''type'', JStr (ascii ''items'')),
             (ascii ''href'', JUndefined)]
   \<and> JObj [(ascii ''id'', JStr (ascii ''a'')), (ascii ''type'', JStr (ascii ''items'')),
           (ascii ''href'', JUndefined)]
     \<noteq> JObj [(ascii ''id'', JStr (ascii ''a'')), (ascii ''type'', JStr (ascii ''items'')),
             (ascii ''href'', JStr (ascii ''u'')), (ascii ''name'', JStr (ascii ''x''))]"
  by (simp add: simplifyEntity_def entity_attributes_def entity_href_def get_prop_JObj
      has_own_JObj coalesce_def)

text \<open>
  C4. When processing item \<open>i\<close> fails in either node: with the continue-on-failure policy
  enabled the run ends without an error, its output is what each of the \<open>n\<close> items
  appended, in order, and item \<open>i\<close> appended exactly the one item
  \<^verbatim>\<open>{ json: { error: message }, pairedItem: i }\<close>; with the policy disabled, and \<open>i\<close> the
  item at which the error is raised (no earlier item failed), the error is thrown with
  item index \<open>i\<close> and \<^verbatim>\<open>returnData\<close> holds exactly what the items before \<open>i\<close> pushed.
\<close>

theorem failure_policy:
  assumes "(run = dm_execute h1 n \<and> try_block = dm_item h1 \<and> continue = continueOnFail h1) \<or>
           (run = md_execute h2 n \<and> try_block = md_item h2 \<and> continue = continueOnFail h2)"
    and "i < n" and "try_block i = Inl e"
  shows "(continue \<longrightarrow>
            run = \<lparr>returnData = concat (map (appended try_block True) [0..<n]), thrown = None\<rparr> \<and>
            appended try_block True i =
              [\<lparr>json = JObj [(ascii ''error'', JStr (message e))], pairedItem = PairedIndex i,
                binary = None\<rparr>] \<and>
            paired_index (PairedIndex i) = i) \<and>
         (\<not> continue \<and> (\<forall>j<i. \<not> isl (try_block j)) \<longrightarrow>
            run = \<lparr>returnData = concat (map (\<lambda>j. projr (try_block j)) [0..<i]),
                   thrown = Some (e, i)\<rparr>)"
proof -
  have run: "run = execute_loop try_block continue n 0 []"
    using assms(1) by (auto simp: dm_execute_def md_execute_def)
  have a: "appended try_block True i = [error_item e i]"
    using assms(3) by (simp add: appended_def)
  have c: "continue \<Longrightarrow>
             run = \<lparr>returnData = concat (map (appended try_block True) [0..<n]), thrown = None\<rparr>"
    using execute_loop_continue [of 0 n try_block "[]"] run by simp
  have s: "run = \<lparr>returnData = concat (map (\<lambda>j. projr (try_block j)) [0..<i]),
                  thrown = Some (e, i)\<rparr>"
    if "\<not> continue" and ok: "\<forall>j<i. \<not> isl (try_block j)"
  proof -
    have m: "map (appended try_block False) [0..<i] = map (\<lambda>j. projr (try_block j)) [0..<i]"
      using ok by (intro map_cong) (auto simp: appended_def split: sum.splits)
    have "run = \<lparr>returnData = concat (map (appended try_block False) [0..<i]),
                 thrown = Some (e, i)\<rparr>"
      using execute_loop_abort [of 0 i n try_block e "[]"] run that assms(2,3) by simp
    then show ?thesis by (simp only: m)
  qed
  show ?thesis using a c s by (simp add: error_item_def)
qed

text \<open>
  Three items of which the second fails, in the Data Management node, under either
  policy; and the Model Derivative node, whose second item lacks its \<^verbatim>\<open>guid\<close>.
\<close>

theorem failure_policy_witness:
  "dm_execute (hubs_host True) 3 =
     \<lparr>returnData =
        [item (JObj [(ascii ''id'', JStr (ascii ''a'')), (ascii ''type'', JUndefined),
                     (ascii ''href'', JUndefined)]) 0,
         \<lparr>json = JObj [(ascii ''error'', JStr (ascii ''Could not get parameter''))],
          pairedItem = PairedIndex 1, binary = None\<rparr>,
         item (JObj [(ascii ''id'', JStr (ascii ''a'')), (ascii ''type'', JUndefined),
                     (ascii ''href'', JUndefined)]) 2],
      thrown = None\<rparr>
   \<and> dm_execute (hubs_host False) 3 =
     \<lparr>returnData =
        [item (JObj [(ascii ''id'', JStr (ascii ''a'')), (ascii ''type'', JUndefined),
                     (ascii ''href'', JUndefined)]) 0],
      thrown = Some (ConfigurationError (ascii ''Could not get parameter''), 1)\<rparr>
   \<and> md_execute (derivative_host False False) 3 =
     \<lparr>returnData =
        [item (JObj [(ascii ''result'', JStr (ascii ''success''))]) 0],
      thrown = Some (ConfigurationError (ascii ''Could not get parameter''), 1)\<rparr>"
proof -
  have u3: "[0..<3] = [0, 1, 2 :: nat]" and u1: "[0..<1] = [0 :: nat]"
    by (simp_all add: upt_rec)
  have t: "continueOnFail (hubs_host True)" and f: "\<not> continueOnFail (hubs_host False)"
    and g: "\<not> continueOnFail (derivative_host False False)"
    by (simp_all add: hubs_host_def derivative_host_def example_host_def)
  have ok: "\<forall>j<1. \<not> isl (dm_item (hubs_host False) j)"
    by (simp add: hubs_item_ok)
  have m0: "md_item (derivative_host False False) 0 =
              Inr [item (JObj [(ascii ''result'', JStr (ascii ''success''))]) 0]"
    by (simp add: md_item_def derivative_host_def example_host_def bindE_def Let_def
        md_normalize_def parse_body_def)
  have m1: "md_item (derivative_host False False) (Suc 0) =
              Inl (ConfigurationError (ascii ''Could not get parameter''))"
    by (simp add: md_item_def derivative_host_def example_host_def bindE_def)
  have mok: "\<forall>j<1. \<not> isl (md_item (derivative_host False False) j)"
    by (simp add: m0)
  show ?thesis
    using failure_policy [of "dm_execute (hubs_host True) 3" "hubs_host True" 3
        "dm_item (hubs_host True)" True undefined 1
        "ConfigurationError (ascii ''Could not get parameter'')"]
      failure_policy [of "dm_execute (hubs_host False) 3" "hubs_host False" 3
        "dm_item (hubs_host False)" False undefined 1
        "ConfigurationError (ascii ''Could not get parameter'')"]
      failure_policy [of "md_execute (derivative_host False False) 3" undefined 3
        "md_item (derivative_host False False)" False "derivative_host False False" 1
        "ConfigurationError (ascii ''Could not get parameter'')"]
      t f g ok mok
    by (simp add: hubs_item_fail hubs_item_ok m0 m1 appended_def u3 u1 error_item_def)
qed

text \<open>
  C5. In either node the output of a run is what the items appended, in order, up to the
  item at which the run ended, and every output item appended while item \<open>i\<close> is
  processed, whether normal, fanned out, binary or error-shaped, has paired item index
  \<open>i\<close>.
\<close>

theorem paired_item_traceability:
  assumes "(run = dm_execute h1 n \<and> try_block = dm_item h1 \<and> continue = continueOnFail h1) \<or>
           (run = md_execute h2 n \<and> try_block = md_item h2 \<and> continue = continueOnFail h2)"
  shows "(\<exists>k\<le>n. returnData run = concat (map (appended try_block continue) [0..<k])) \<and>
         (\<forall>out \<in> set (appended try_block continue i). paired_index (pairedItem out) = i)"
proof -
  have run: "run = execute_loop try_block continue n 0 []"
    using assms by (auto simp: dm_execute_def md_execute_def)
  have p: "paired_index (pairedItem out) = i" if "try_block i = Inr pushed" "out \<in> set pushed"
    for pushed out
    using assms that by (auto dest: dm_item_paired md_item_paired)
  have "\<exists>k\<le>n. returnData run = concat (map (appended try_block continue) [0..<k])"
    using execute_loop_prefix [of 0 n try_block continue "[]"] run by auto
  moreover have "\<forall>out \<in> set (appended try_block continue i). paired_index (pairedItem out) = i"
    using appended_paired [of try_block i _ continue] p by blast
  ultimately show ?thesis by simp
qed

theorem paired_item_traceability_witness:
  "appended (dm_item (hubs_host True)) True 1 =
     [\<lparr>json = JObj [(ascii ''error'', JStr (ascii ''Could not get parameter''))],
       pairedItem = PairedIndex 1, binary = None\<rparr>]
   \<and> paired_index (pairedItem
        \<lparr>json = JObj [(ascii ''error'', JStr (ascii ''Could not get parameter''))],
         pairedItem = PairedIndex 1, binary = None\<rparr>) = 1
   \<and> (\<exists>k\<le>3. returnData (dm_execute (hubs_host True) 3) =
                concat (map (appended (dm_item (hubs_host True)) True) [0..<k]))"
proof -
  have t: "continueOnFail (hubs_host True)"
    by (simp add: hubs_host_def example_host_def)
  show ?thesis
    using paired_item_traceability [of "dm_execute (hubs_host True) 3" "hubs_host True" 3
        "dm_item (hubs_host True)" True undefined 1] t
    by (simp add: hubs_item_fail appended_def error_item_def)
qed

text \<open>
  C6. The list body \<^verbatim>\<open>{ data: [{id:"a", type:"items", attributes:{name:"x"},
  links:{self:{href:"u"}}}] }\<close>, normalized for item 0 with simplify and split-into-items
  enabled, yields exactly one output item, whose json is
  \<^verbatim>\<open>{id:"a", type:"items", href:"u", name:"x"}\<close> and whose paired item index is 0.
\<close>

theorem normalize_response_roundtrip:
  "normalize_response True True 0
     (JObj [(ascii ''data'',
        JArr [JObj [(ascii ''id'', JStr (ascii ''a'')),
                    (ascii ''type'', JStr (ascii ''items'')),
                    (ascii ''attributes'', JObj [(ascii ''name'', JStr (ascii ''x''))]),
                    (ascii ''links'',
                     JObj [(ascii ''self'', JObj [(ascii ''href'', JStr (ascii ''u''))])])]])])
   = [\<lparr>json = JObj [(ascii ''id'', JStr (ascii ''a'')),
                    (ascii ''type'', JStr (ascii ''items'')),
                    (ascii ''href'', JStr (ascii ''u'')),
                    (ascii ''name'', JStr (ascii ''x''))],
       pairedItem = PairedItem 0, binary = None\<rparr>]
   \<and> paired_index (PairedItem 0) = 0"
  by (simp add: normalize_response_def item_def simplifyEntity_def entity_attributes_def
      entity_href_def get_prop_JObj coalesce_def spread_def)

text \<open>
  C7. For every operation of either node, the URL of a request that is built is the base
  URL followed by the operation's path pattern, in which each literal segment, with its
  \<^verbatim>\<open>/\<close> separators, stands as written and each path parameter stands as its own
  \<^verbatim>\<open>encodeURIComponent\<close> encoding: a percent-encoded string in which no reserved
  character is raw except the marks \<^verbatim>\<open>! ' ( ) *\<close>.
\<close>

theorem path_parameters_encoded:
  "(dm_request h1 i operation1 = Inr r1 \<longrightarrow>
      (\<exists>ts. list_all2 (fills h1 i) (dm_path_pattern operation1) ts \<and>
            url r1 = BASE_URL @ concat ts)) \<and>
   (getString h2 (ascii ''urn'') i None = Inr urn \<and> md_request h2 i operation2 urn = Inr r2 \<longrightarrow>
      (\<exists>ts. list_all2 (fills h2 i) (md_path_pattern operation2) ts \<and>
            url r2 = BASE_URL @ concat ts))"
  using dm_request_url [of h1 i operation1 r1] md_request_url [of h2 i urn operation2 r2]
  by blast

theorem path_parameters_encoded_witness:
  "dm_request items_host 0 getItems =
     Inr \<lparr>http_method = ascii ''GET'',
          url = ascii ''https://developer.api.autodesk.com/data/v1/projects/a%2Fb/folders/c%20d%3F/contents'',
          req_json = True, headers = Some ACCEPT, qs = None, body = None, encoding = None\<rparr>
   \<and> md_request (derivative_host False False) 0 getManifest (ascii ''a/b'') =
     Inr \<lparr>http_method = ascii ''GET'',
          url = ascii ''https://developer.api.autodesk.com/modelderivative/v2/designdata/a%2Fb/manifest'',
          req_json = True, headers = None, qs = None, body = None, encoding = None\<rparr>
   \<and> (\<exists>ts. list_all2 (fills items_host 0) (dm_path_pattern getItems) ts \<and>
        ascii ''https://developer.api.autodesk.com/data/v1/projects/a%2Fb/folders/c%20d%3F/contents''
          = BASE_URL @ concat ts)
   \<and> (\<exists>ts. list_all2 (fills (derivative_host False False) 0) (md_path_pattern getManifest) ts \<and>
        ascii ''https://developer.api.autodesk.com/modelderivative/v2/designdata/a%2Fb/manifest''
          = BASE_URL @ concat ts)"
proof -
  have d: "dm_request items_host 0 getItems =
     Inr \<lparr>http_method = ascii ''GET'',
          url = ascii ''https://developer.api.autodesk.com/data/v1/projects/a%2Fb/folders/c%20d%3F/contents'',
          req_json = True, headers = Some ACCEPT, qs = None, body = None, encoding = None\<rparr>"
    by (simp add: dm_request_def items_host_def example_host_def bindE_def encode_examples
        BASE_URL_def ascii_append [symmetric])
  have u: "getString (derivative_host False False) (ascii ''urn'') 0 None = Inr (ascii ''a/b'')"
    by (simp add: derivative_host_def example_host_def)
  have m: "md_request (derivative_host False False) 0 getManifest (ascii ''a/b'') =
     Inr \<lparr>http_method = ascii ''GET'',
          url = ascii ''https://developer.api.autodesk.com/modelderivative/v2/designdata/a%2Fb/manifest'',
          req_json = True, headers = None, qs = None, body = None, encoding = None\<rparr>"
    by (simp add: derivative_host_def example_host_def bindE_def designdata_url_def
        encode_examples BASE_URL_def ascii_append [symmetric])
  note t = path_parameters_encoded [of items_host 0 getItems _ "derivative_host False False"
      "ascii ''a/b''" getManifest]
  have "\<exists>ts. list_all2 (fills items_host 0) (dm_path_pattern getItems) ts \<and>
        ascii ''https://developer.api.autodesk.com/data/v1/projects/a%2Fb/folders/c%20d%3F/contents''
          = BASE_URL @ concat ts"
    using t [THEN conjunct1, rule_format, OF d] by (simp only: request.simps)
  moreover have "\<exists>ts. list_all2 (fills (derivative_host False False) 0)
                        (md_path_pattern getManifest) ts \<and>
        ascii ''https://developer.api.autodesk.com/modelderivative/v2/designdata/a%2Fb/manifest''
          = BASE_URL @ concat ts"
    using t [THEN conjunct2, rule_format, OF conjI [OF u m]] by (simp only: request.simps)
  ultimately show ?thesis
    using d m by blast
qed

text \<open>
  The hub \<^verbatim>\<open>a!b(c)*\<close>: the URL of the request holds the reserved characters
  \<^verbatim>\<open>! ( ) *\<close> of the parameter as they are.
\<close>

theorem path_parameters_encoded_counterexample:
  "dm_request marks_host 0 getProjects =
     Inr \<lparr>http_method = ascii ''GET'',
          url = ascii ''https://developer.api.autodesk.com/project/v1/hubs/a!b(c)*/projects'',
          req_json = True, headers = Some ACCEPT, qs = None, body = None, encoding = None\<rparr>
   \<and> getString marks_host (ascii ''hubId'') 0 None = Inr (ascii ''a!b(c)*'')
   \<and> ascii ''a!b(c)*'' = [0x61, 0x21, 0x62, 0x28, 0x63, 0x29, 0x2A]
   \<and> reserved 0x21 \<and> reserved 0x28 \<and> reserved 0x29 \<and> reserved 0x2A"
proof -
  have e: "encodeURIComponent (ascii ''a!b(c)*'') = Inr (ascii ''a!b(c)*'')"
    by (simp add: encodeURIComponent_def ascii_Cons ascii_Nil unescaped_def)
  have r: "reserved 0x21 \<and> reserved 0x28 \<and> reserved 0x29 \<and> reserved 0x2A"
    by (simp add: reserved_def ascii_Cons ascii_Nil)
  have a: "ascii ''a!b(c)*'' = [0x61, 0x21, 0x62, 0x28, 0x63, 0x29, 0x2A]"
    by (simp add: ascii_Cons ascii_Nil)
  have d: "dm_request marks_host 0 getProjects =
     Inr \<lparr>http_method = ascii ''GET'',
          url = ascii ''https://developer.api.autodesk.com/project/v1/hubs/a!b(c)*/projects'',
          req_json = True, headers = Some ACCEPT, qs = None, body = None, encoding = None\<rparr>"
    by (simp add: dm_request_def marks_host_def example_host_def bindE_def e BASE_URL_def
        ascii_append [symmetric])
  have g: "getString marks_host (ascii ''hubId'') 0 None = Inr (ascii ''a!b(c)*'')"
    by (simp add: marks_host_def example_host_def)
  show ?thesis using d g a r by (simp only: simp_thms)
qed

text \<open>
  C8. A body whose \<^verbatim>\<open>data\<close> field is an empty array yields no output item when
  split-into-items is enabled. When it is disabled it yields exactly one output item, whose
  json is \<^verbatim>\<open>{data: []}\<close> if simplify is enabled and is the body as it is, with the
  fields it has beside \<^verbatim>\<open>data\<close>, if simplify is disabled.
\<close>

theorem normalize_response_empty_data:
  assumes "get_prop b (ascii ''data'') = JArr []"
  shows "normalize_response simplify True i b = []
       \<and> normalize_response True False i b = [item (JObj [(ascii ''data'', JArr [])]) i]
       \<and> normalize_response False False i b = [item b i]"
  using assms by (simp add: normalize_response_def)

theorem normalize_response_empty_data_witness:
  "get_prop (JObj [(ascii ''data'', JArr [])]) (ascii ''data'') = JArr []
   \<and> normalize_response True True 0 (JObj [(ascii ''data'', JArr [])]) = []
   \<and> normalize_response False False 0 (JObj [(ascii ''data'', JArr [])])
     = [item (JObj [(ascii ''data'', JArr [])]) 0]"
  using normalize_response_empty_data [of "JObj [(ascii ''data'', JArr [])]"]
  by (simp add: get_prop_JObj)

text \<open>
  The body \<^verbatim>\<open>{data: [], links: {}}\<close> with both settings disabled: the json of the one
  output item is the whole body, not \<^verbatim>\<open>{data: []}\<close>.
\<close>

theorem normalize_response_empty_data_counterexample:
  "get_prop (JObj [(ascii ''data'', JArr []), (ascii ''links'', JObj [])]) (ascii ''data'') = JArr []
   \<and> map json (normalize_response False False 0
                 (JObj [(ascii ''data'', JArr []), (ascii ''links'', JObj [])]))
     = [JObj [(ascii ''data'', JArr []), (ascii ''links'', JObj [])]]
   \<and> JObj [(ascii ''data'', JArr []), (ascii ''links'', JObj [])]
     \<noteq> JObj [(ascii ''data'', JArr [])]"
  by (simp add: normalize_response_def item_def get_prop_JObj)

text \<open>
  C9. A body without a \<^verbatim>\<open>data\<close> field yields exactly one output item, whose json is the
  body itself, whatever the simplify and split-into-items settings are.
\<close>

theorem normalize_response_pass_through:
  assumes "\<not> has_own b (ascii ''data'')"
  shows "normalize_response simplify splitItems i b = [item b i]"
  using assms by (simp add: normalize_response_def get_prop_absent)

theorem normalize_response_pass_through_witness:
  "\<not> has_own (JObj [(ascii ''status'', JStr (ascii ''success'')),
                    (ascii ''region'', JStr (ascii ''US''))]) (ascii ''data'')
   \<and> normalize_response True True 0
       (JObj [(ascii ''status'', JStr (ascii ''success'')), (ascii ''region'', JStr (ascii ''US''))])
     = [item (JObj [(ascii ''status'', JStr (ascii ''success'')),
                    (ascii ''region'', JStr (ascii ''US''))]) 0]
   \<and> normalize_response False True 0
       (JObj [(ascii ''status'', JStr (ascii ''success'')), (ascii ''region'', JStr (ascii ''US''))])
     = [item (JObj [(ascii ''status'', JStr (ascii ''success'')),
                    (ascii ''region'', JStr (ascii ''US''))]) 0]"
  using normalize_response_pass_through
    [of "JObj [(ascii ''status'', JStr (ascii ''success'')), (ascii ''region'', JStr (ascii ''US''))]"]
  by (simp add: has_own_JObj)

text \<open>
  C10. A request built for the translation-job creation is the baseline request without
  the views field when the advanced-output-settings toggle is disabled; when the toggle is
  enabled it is that baseline request with the views list attached to the output format
  of the body, and no other field differs.
\<close>

theorem advanced_output_toggle:
  assumes "md_request h i createJob urn = Inr r"
  shows "\<exists>outputFormat force advanced.
           getString h (ascii ''outputFormat'') i None = Inr outputFormat \<and>
           getBoolean h (ascii ''forceRegenerate'') i (Some False) = Inr force \<and>
           getBoolean h (ascii ''advancedOutputSettings'') i (Some False) = Inr advanced \<and>
           (\<not> advanced \<longrightarrow> r = createJob_baseline urn outputFormat force) \<and>
           (advanced \<longrightarrow>
              (\<exists>views. getStrings h (ascii ''views'') i (Some [ascii ''2d'', ascii ''3d''])
                         = Inr views \<and>
                 r = (createJob_baseline urn outputFormat force)
                       \<lparr>body := Some (createJob_body urn
                                  [(ascii ''type'', JStr outputFormat),
                                   (ascii ''views'', JArr (map JStr views))])\<rparr>))"
  using assms
  by (auto simp: bindE_Inr createJob_baseline_def createJob_body_def BASE_URL_def
      ascii_append [symmetric] Let_def split: if_splits)

theorem advanced_output_toggle_witness:
  "md_request (derivative_host False False) 0 createJob (ascii ''a/b'')
     = Inr (createJob_baseline (ascii ''a/b'') (ascii ''svf'') False)
   \<and> md_request (derivative_host False True) 0 createJob (ascii ''a/b'')
     = Inr ((createJob_baseline (ascii ''a/b'') (ascii ''svf'') False)
             \<lparr>body := Some (createJob_body (ascii ''a/b'')
                        [(ascii ''type'', JStr (ascii ''svf'')),
                         (ascii ''views'', JArr [JStr (ascii ''2d''), JStr (ascii ''3d'')])])\<rparr>)"
proof -
  have a: "\<exists>r. md_request (derivative_host False False) 0 createJob (ascii ''a/b'') = Inr r"
    and b: "\<exists>r. md_request (derivative_host False True) 0 createJob (ascii ''a/b'') = Inr r"
    by (simp_all add: derivative_host_def example_host_def bindE_def Let_def)
  from a obtain r1
    where r1: "md_request (derivative_host False False) 0 createJob (ascii ''a/b'') = Inr r1" ..
  from b obtain r2
    where r2: "md_request (derivative_host False True) 0 createJob (ascii ''a/b'') = Inr r2" ..
  have g: "getString (derivative_host False c) (ascii ''outputFormat'') 0 None = Inr (ascii ''svf'')"
    "getBoolean (derivative_host False c) (ascii ''forceRegenerate'') 0 (Some False) = Inr False"
    "getBoolean (derivative_host False c) (ascii ''advancedOutputSettings'') 0 (Some False) = Inr c"
    "getStrings (derivative_host False c) (ascii ''views'') 0 (Some [ascii ''2d'', ascii ''3d''])
       = Inr [ascii ''2d'', ascii ''3d'']"
    for c
    by (simp_all add: derivative_host_def example_host_def)
  show ?thesis
    using advanced_output_toggle [OF r1] advanced_output_toggle [OF r2] r1 r2
    by (auto simp: g)
qed

end
